theory Spec2Isabelle
  imports
    Complex_Main
    "HOL-Library.List_Lexorder"
    "HOL-Library.Char_ord"
    "HOL-Library.Product_Lexorder"
    "HOL-Library.Sublist"
begin

section \<open>Values and tables\<close>

text \<open>
  The script \<^verbatim>\<open>Finale_Script.py\<close> works on one pandas data frame. A cell of the frame is a
  floating-point number, a text, a time stamp, or a missing marker. Floating-point
  numbers are modelled by their value: a finite number is an exact rational (rounding and
  overflow of finite arithmetic are not modelled), and the three special values of
  IEEE-754 that the script's logic depends on are kept apart: \<open>NaN\<close> (which is also the
  missing marker of numeric and text columns), \<open>-inf\<close> and \<open>+inf\<close>. \<open>NaT\<close> is the missing
  marker of date columns.
\<close>

datatype fl = NaN | NInf | Fin rat | PInf

datatype cell = Num fl | Str string | Date int | NaT

text \<open>\<^verbatim>\<open>isna\<close>: what pandas counts as missing.\<close>

fun isna :: "cell \<Rightarrow> bool" where
  "isna (Num NaN) = True"
| "isna NaT = True"
| "isna _ = False"

text \<open>
  A data frame is its list of column names and its list of rows, every row holding one cell
  per column. The row labels (the index) are not modelled: no operation of the script
  reads them. A frame read by \<^verbatim>\<open>read_csv\<close> has pairwise different column names and rows of
  full length; \<open>wf_table\<close> says so.
\<close>

type_synonym row = "cell list"

record table =
  columns :: "string list"
  rows :: "row list"

definition wf_table :: "table \<Rightarrow> bool" where
  "wf_table df =
     (distinct (columns df) \<and> list_all (\<lambda>r. length r = length (columns df)) (rows df))"

datatype error =
    KeyError "string list"
  | TypeError
  | ValueError
  | ParserError

text \<open>The position of a column name among the columns (the first one of that name).\<close>

fun index_of :: "string \<Rightarrow> string list \<Rightarrow> nat option" where
  "index_of n [] = None"
| "index_of n (c # cs) = (if c = n then Some 0 else map_option Suc (index_of n cs))"

text \<open>The cell of row \<open>r\<close> in the column named \<open>c\<close> (for a column of the frame).\<close>

definition get :: "table \<Rightarrow> row \<Rightarrow> string \<Rightarrow> cell" where
  "get df r c = r ! the (index_of c (columns df))"

section \<open>Configuration\<close>

definition RAW_DATA_PATH :: string where
  "RAW_DATA_PATH = ''GBP_DataSource_Pr.csv''"

definition CLEAN_DATA_PATH :: string where
  "CLEAN_DATA_PATH = ''GBP_DataSource_clean.csv''"

definition LOG_PATH :: string where
  "LOG_PATH = ''GBP_DataSource_data_quality_log.txt''"

definition REPORT_PATH :: string where
  "REPORT_PATH = ''GBP_DataSource_Analysis_Report.docx''"

definition DATE_COLS :: "string list" where
  "DATE_COLS = [''Order Date'', ''Ship Date'']"

section \<open>Texts and numbers\<close>

subsection \<open>Texts\<close>

text \<open>
  Texts are lists of characters; column names are taken to be ASCII. \<^verbatim>\<open>str.strip()\<close> removes
  the white space of Python from both ends, \<^verbatim>\<open>str.replace\<close> is used on single characters
  only, \<^verbatim>\<open>str.lower()\<close> and \<^verbatim>\<open>str.upper()\<close> change the 26 letters. \<open>show_nat\<close> and \<open>show_int\<close>
  are the decimal forms that an f-string prints.
\<close>

definition is_space :: "char \<Rightarrow> bool" where
  "is_space c = (c \<in> set [CHR 0x20, CHR 0x09, CHR 0x0A, CHR 0x0B, CHR 0x0C, CHR 0x0D,
                          CHR 0x1C, CHR 0x1D, CHR 0x1E, CHR 0x1F])"

definition lower_char :: "char \<Rightarrow> char" where
  "lower_char c =
     (case map_of (zip ''ABCDEFGHIJKLMNOPQRSTUVWXYZ'' ''abcdefghijklmnopqrstuvwxyz'') c of
        Some d \<Rightarrow> d
      | None \<Rightarrow> c)"

definition upper_char :: "char \<Rightarrow> char" where
  "upper_char c =
     (case map_of (zip ''abcdefghijklmnopqrstuvwxyz'' ''ABCDEFGHIJKLMNOPQRSTUVWXYZ'') c of
        Some d \<Rightarrow> d
      | None \<Rightarrow> c)"

definition strip :: "string \<Rightarrow> string" where
  "strip s = rev (dropWhile is_space (rev (dropWhile is_space s)))"

definition replace_char :: "char \<Rightarrow> char \<Rightarrow> string \<Rightarrow> string" where
  "replace_char a b s = map (\<lambda>c. if c = a then b else c) s"

definition lower :: "string \<Rightarrow> string" where
  "lower s = map lower_char s"

definition upper :: "string \<Rightarrow> string" where
  "upper s = map upper_char s"

definition normalize_name :: "string \<Rightarrow> string" where
  "normalize_name s = lower (replace_char (CHR '' '') (CHR ''_'') (strip s))"

fun show_nat :: "nat \<Rightarrow> string" where
  "show_nat n =
     (if n < 10 then [''0123456789'' ! n]
      else show_nat (n div 10) @ [''0123456789'' ! (n mod 10)])"

declare show_nat.simps [simp del]

definition show_int :: "int \<Rightarrow> string" where
  "show_int i = (if i < 0 then CHR ''-'' # show_nat (nat (- i)) else show_nat (nat i))"

subsection \<open>Floating-point arithmetic\<close>

text \<open>
  Division and addition on the special values follow IEEE-754: a finite non-zero number
  over zero is an infinity, zero over zero and infinity over infinity are \<open>NaN\<close>, opposite
  infinities add up to \<open>NaN\<close>. Zero has no sign in the model; the sign of an infinity is
  the only thing that depends on it. \<open>median\<close> is \<^verbatim>\<open>Series.median()\<close>: missing values are
  skipped, the middle value of the sorted rest, or the mean of the two middle values; \<open>NaN\<close>
  when nothing is left.
\<close>

fun fl_div :: "fl \<Rightarrow> fl \<Rightarrow> fl" where
  "fl_div NaN _ = NaN"
| "fl_div _ NaN = NaN"
| "fl_div (Fin a) (Fin b) =
     (if b \<noteq> 0 then Fin (a / b)
      else if 0 < a then PInf
      else if a < 0 then NInf
      else NaN)"
| "fl_div (Fin a) _ = Fin 0"
| "fl_div PInf (Fin b) = (if b < 0 then NInf else PInf)"
| "fl_div NInf (Fin b) = (if b < 0 then PInf else NInf)"
| "fl_div _ _ = NaN"

fun fl_add :: "fl \<Rightarrow> fl \<Rightarrow> fl" where
  "fl_add NaN _ = NaN"
| "fl_add _ NaN = NaN"
| "fl_add (Fin a) (Fin b) = Fin (a + b)"
| "fl_add PInf NInf = NaN"
| "fl_add NInf PInf = NaN"
| "fl_add PInf _ = PInf"
| "fl_add _ PInf = PInf"
| "fl_add NInf _ = NInf"
| "fl_add _ NInf = NInf"

fun replace_inf :: "fl \<Rightarrow> fl" where
  "replace_inf PInf = Fin 0"
| "replace_inf NInf = Fin 0"
| "replace_inf x = x"

fun truediv :: "cell \<Rightarrow> cell \<Rightarrow> error + fl" where
  "truediv (Num a) (Num b) = Inr (fl_div a b)"
| "truediv _ _ = Inl TypeError"

fun collect :: "(error + 'a) list \<Rightarrow> error + 'a list" where
  "collect [] = Inr []"
| "collect (x # xs) =
     (case x of
        Inl e \<Rightarrow> Inl e
      | Inr v \<Rightarrow> (case collect xs of Inl e \<Rightarrow> Inl e | Inr vs \<Rightarrow> Inr (v # vs)))"

fun fl_rank :: "fl \<Rightarrow> nat \<times> rat" where
  "fl_rank NInf = (0, 0)"
| "fl_rank (Fin q) = (1, q)"
| "fl_rank PInf = (2, 0)"
| "fl_rank NaN = (3, 0)"

fun numbers :: "cell list \<Rightarrow> fl list" where
  "numbers [] = []"
| "numbers (Num x # vs) = (if x = NaN then numbers vs else x # numbers vs)"
| "numbers (_ # vs) = numbers vs"

definition median :: "cell list \<Rightarrow> fl" where
  "median vs =
     (let xs = sort_key fl_rank (numbers vs); n = length xs
      in if n = 0 then NaN
         else if odd n then xs ! (n div 2)
         else fl_div (fl_add (xs ! (n div 2 - 1)) (xs ! (n div 2))) (Fin 2))"

section \<open>The data-frame operations the script calls\<close>

subsection \<open>Duplicates\<close>

text \<open>
  \<^verbatim>\<open>df.duplicated()\<close> marks a row when an equal row stands before it (\<^verbatim>\<open>keep='first'\<close>); two
  missing markers count as equal. \<^verbatim>\<open>df.drop_duplicates()\<close> keeps the rows that are not
  marked, in their order. (The frames here have at least one column, as every frame read
  from a file has.)
\<close>

fun duplicated_from :: "'a list \<Rightarrow> 'a list \<Rightarrow> bool list" where
  "duplicated_from seen [] = []"
| "duplicated_from seen (r # rs) = (r \<in> set seen) # duplicated_from (r # seen) rs"

definition duplicated :: "'a list \<Rightarrow> bool list" where
  "duplicated rs = duplicated_from [] rs"

definition drop_duplicates :: "'a list \<Rightarrow> 'a list" where
  "drop_duplicates rs = map fst (filter (\<lambda>(r, d). \<not> d) (zip rs (duplicated rs)))"

text \<open>\<^verbatim>\<open>df.duplicated().sum()\<close>: the number of marked rows.\<close>

definition count_full_duplicates :: "'a list \<Rightarrow> nat" where
  "count_full_duplicates rs = length (filter (\<lambda>d. d) (duplicated rs))"

subsection \<open>Missing values, grouping, sorting\<close>

text \<open>\<^verbatim>\<open>dropna(subset=...)\<close>: keep the rows with no missing cell at the given positions.\<close>

definition dropna :: "nat list \<Rightarrow> row list \<Rightarrow> row list" where
  "dropna ps rs = filter (\<lambda>r. list_all (\<lambda>i. \<not> isna (r ! i)) ps) rs"

text \<open>\<^verbatim>\<open>nunique()\<close>: the number of distinct values that are not missing.\<close>

definition nunique :: "cell list \<Rightarrow> nat" where
  "nunique vs = length (remdups (filter (\<lambda>v. \<not> isna v) vs))"

definition col_values :: "nat \<Rightarrow> row list \<Rightarrow> cell list" where
  "col_values i rs = map (\<lambda>r. r ! i) rs"

text \<open>The filter function of the script: \<^verbatim>\<open>lambda x: x[col2].nunique().gt(1).any()\<close>.\<close>

definition any_nunique_gt1 :: "nat list \<Rightarrow> row list \<Rightarrow> bool" where
  "any_nunique_gt1 ds g = list_ex (\<lambda>d. 1 < nunique (col_values d g)) ds"

text \<open>
  \<^verbatim>\<open>groupby(col).filter(f)\<close>: the rows, in their order, whose group (the rows of the same
  key) passes \<open>f\<close>; a row with a missing key is in no group.
\<close>

definition groupby_filter :: "nat \<Rightarrow> (row list \<Rightarrow> bool) \<Rightarrow> row list \<Rightarrow> row list" where
  "groupby_filter k f rs =
     filter (\<lambda>r. \<not> isna (r ! k) \<and> f (filter (\<lambda>r'. r' ! k = r ! k) rs)) rs"

definition select_cols :: "nat list \<Rightarrow> row list \<Rightarrow> row list" where
  "select_cols ps rs = map (\<lambda>r. map (\<lambda>i. r ! i) ps) rs"

text \<open>
  The order of Python on values of one kind: numbers by value, texts by code point, time
  stamps by time. Values of two kinds do not compare (\<^verbatim>\<open>TypeError\<close>).
\<close>

fun kind :: "cell \<Rightarrow> nat" where
  "kind (Num _) = 0"
| "kind (Str _) = 1"
| "kind (Date _) = 2"
| "kind NaT = 2"



text \<open>
  \<^verbatim>\<open>sort_values(by=col)\<close> sorts the rows by the key, ascending, missing keys last. The sort
  key \<open>sort_rank\<close> realises \<open>cell_le\<close> on the values of one kind. The library's default sort
  leaves the order of rows of equal key open; the model takes the stable sort, and no
  property below depends on that choice. Keys of two kinds raise \<^verbatim>\<open>TypeError\<close>.
\<close>

fun sort_rank :: "cell \<Rightarrow> nat \<times> rat \<times> string \<times> int" where
  "sort_rank (Num NInf) = (0, 0, [], 0)"
| "sort_rank (Num (Fin q)) = (1, q, [], 0)"
| "sort_rank (Num PInf) = (2, 0, [], 0)"
| "sort_rank (Str s) = (1, 0, s, 0)"
| "sort_rank (Date d) = (1, 0, [], d)"
| "sort_rank (Num NaN) = (3, 0, [], 0)"
| "sort_rank NaT = (3, 0, [], 0)"

definition one_kind :: "cell list \<Rightarrow> bool" where
  "one_kind vs =
     (case filter (\<lambda>v. \<not> isna v) vs of
        [] \<Rightarrow> True
      | v # ws \<Rightarrow> list_all (\<lambda>w. kind w = kind v) ws)"

definition sort_values :: "nat \<Rightarrow> row list \<Rightarrow> error + row list" where
  "sort_values k rs =
     (if one_kind (col_values k rs) then Inr (sort_key (\<lambda>r. sort_rank (r ! k)) rs)
      else Inl TypeError)"

subsection \<open>Columns by name\<close>

definition has_cols :: "string list \<Rightarrow> table \<Rightarrow> bool" where
  "has_cols cs t = list_all (\<lambda>c. c \<in> set (columns t)) cs"

definition positions :: "string \<Rightarrow> string list \<Rightarrow> nat list" where
  "positions c cs = filter (\<lambda>i. cs ! i = c) [0..<length cs]"

text \<open>
  \<^verbatim>\<open>df[col]\<close> read as one column: a name that stands twice among the columns selects a
  frame, not a column, and the uses below (\<^verbatim>\<open>pd.to_datetime\<close> of it, the truth value of
  \<^verbatim>\<open>.isna().any()\<close>) raise \<^verbatim>\<open>ValueError\<close>.
\<close>

definition column_pos :: "string \<Rightarrow> table \<Rightarrow> error + nat" where
  "column_pos c t =
     (case positions c (columns t) of
        [] \<Rightarrow> Inl (KeyError [c])
      | [i] \<Rightarrow> Inr i
      | _ \<Rightarrow> Inl ValueError)"

definition set_column :: "nat \<Rightarrow> cell list \<Rightarrow> table \<Rightarrow> table" where
  "set_column i vs t = t\<lparr>rows := map2 (\<lambda>r v. r[i := v]) (rows t) vs\<rparr>"

text \<open>\<^verbatim>\<open>df[name] = values\<close>: a new last column, or new cells for the column of that name.\<close>

definition assign :: "string \<Rightarrow> cell list \<Rightarrow> table \<Rightarrow> table" where
  "assign c vs t =
     (case index_of c (columns t) of
        None \<Rightarrow> \<lparr>columns = columns t @ [c], rows = map2 (\<lambda>r v. r @ [v]) (rows t) vs\<rparr>
      | Some i \<Rightarrow> set_column i vs t)"

section \<open>Inconsistency detection\<close>

text \<open>
  \<^verbatim>\<open>detect_inconsistencies(df, col1, col2)\<close>, where \<^verbatim>\<open>col2\<close> is one name or a list of names.
  A name that is not a column raises \<^verbatim>\<open>KeyError\<close> (in \<^verbatim>\<open>dropna\<close>). When the key is also among
  the dependent columns the projected frame has two columns of the key's name, and
  \<^verbatim>\<open>sort_values\<close> refuses the ambiguous label (\<^verbatim>\<open>ValueError\<close>).
\<close>

datatype col_arg = One string | Many "string list"

fun as_list :: "col_arg \<Rightarrow> string list" where
  "as_list (One c) = [c]"
| "as_list (Many cs) = cs"

definition detect_inconsistencies :: "table \<Rightarrow> string \<Rightarrow> col_arg \<Rightarrow> error + table" where
  "detect_inconsistencies df col1 col2a =
     (let col2 = as_list col2a;
          check_cols = col1 # col2
      in case those (map (\<lambda>c. index_of c (columns df)) check_cols) of
           None \<Rightarrow> Inl (KeyError (filter (\<lambda>c. c \<notin> set (columns df)) check_cols))
         | Some ps \<Rightarrow>
             (let df_temp = dropna ps (rows df);
                  inconsistent = groupby_filter (hd ps) (any_nunique_gt1 (tl ps)) df_temp;
                  projected = drop_duplicates (select_cols ps inconsistent)
              in if col1 \<in> set col2 then Inl ValueError
                 else (case sort_values 0 projected of
                         Inl e \<Rightarrow> Inl e
                       | Inr sorted_rows \<Rightarrow> Inr \<lparr>columns = check_cols, rows = sorted_rows\<rparr>)))"

subsection \<open>The function on objects\<close>

text \<open>
  The same function with the frames as objects of a store, to tell the caller's frame from
  the frames the function makes. An address is a position in the store; every call of the
  library in the function (\<^verbatim>\<open>copy\<close>, \<^verbatim>\<open>dropna\<close>, \<^verbatim>\<open>groupby(...).filter\<close>, the selection
  of columns, \<^verbatim>\<open>drop_duplicates\<close>, \<^verbatim>\<open>sort_values\<close>) makes a new frame and returns its
  address; none is called in place. The result is the outcome of the call and the store
  after it.
\<close>

type_synonym store = "table list"

definition alloc :: "table \<Rightarrow> store \<Rightarrow> nat \<times> store" where
  "alloc t h = (length h, h @ [t])"

definition detect_inconsistencies_obj ::
  "store \<Rightarrow> nat \<Rightarrow> string \<Rightarrow> col_arg \<Rightarrow> (error + nat) \<times> store" where
  "detect_inconsistencies_obj h df col1 col2a =
     (let (df_temp, h1) = alloc (h ! df) h;
          col2 = as_list col2a;
          check_cols = col1 # col2
      in case those (map (\<lambda>c. index_of c (columns (h1 ! df_temp))) check_cols) of
           None \<Rightarrow>
             (Inl (KeyError (filter (\<lambda>c. c \<notin> set (columns (h1 ! df_temp))) check_cols)), h1)
         | Some ps \<Rightarrow>
             (let (df_temp2, h2) =
                    alloc ((h1 ! df_temp)\<lparr>rows := dropna ps (rows (h1 ! df_temp))\<rparr>) h1;
                  (inconsistent, h3) =
                    alloc ((h2 ! df_temp2)\<lparr>rows := groupby_filter (hd ps) (any_nunique_gt1 (tl ps))
                                                      (rows (h2 ! df_temp2))\<rparr>) h2;
                  (selected, h4) =
                    alloc \<lparr>columns = check_cols,
                           rows = select_cols ps (rows (h3 ! inconsistent))\<rparr> h3;
                  (deduped, h5) =
                    alloc ((h4 ! selected)\<lparr>rows := drop_duplicates (rows (h4 ! selected))\<rparr>) h4
              in if col1 \<in> set col2 then (Inl ValueError, h5)
                 else (case sort_values 0 (rows (h5 ! deduped)) of
                         Inl e \<Rightarrow> (Inl e, h5)
                       | Inr sorted_rows \<Rightarrow>
                           (let (res, h6) = alloc ((h5 ! deduped)\<lparr>rows := sorted_rows\<rparr>) h5
                            in (Inr res, h6)))))"

section \<open>The logger and the world outside\<close>

subsection \<open>Library functions taken as parameters\<close>

text \<open>
  The clock, the text form of a value and the date parser belong to the libraries.
  \<open>now_text n\<close> and \<open>now_hms n\<close> are the two text forms of the time at the \<open>n\<close>-th reading
  of the clock; \<open>str_of\<close> is \<^verbatim>\<open>str\<close>; \<open>parse_datetime vs v\<close> is the time stamp that
  \<^verbatim>\<open>pd.to_datetime(..., errors='coerce')\<close> finds for the value \<open>v\<close> of the column \<open>vs\<close>, if any.
\<close>

record lib =
  now_text :: "nat \<Rightarrow> string"
  now_hms :: "nat \<Rightarrow> string"
  str_of :: "cell \<Rightarrow> string"
  parse_datetime :: "cell list \<Rightarrow> cell \<Rightarrow> int option"

subsection \<open>Files, console and the logger\<close>

datatype doc_item = Heading string nat | Paragraph string | TableBlock table

datatype content = TextFile string | CsvFile table | DocFile "doc_item list"

record world =
  files :: "string \<Rightarrow> content option"
  console :: "string list"
  ticks :: nat

record logger =
  txt_path :: string
  doc_path :: string
  doc :: "doc_item list"

definition nl :: string where
  "nl = [CHR 0x0A]"

definition write_text :: "string \<Rightarrow> string \<Rightarrow> world \<Rightarrow> world" where
  "write_text p s w = w\<lparr>files := (files w)(p \<mapsto> TextFile s)\<rparr>"

definition append_text :: "string \<Rightarrow> string \<Rightarrow> world \<Rightarrow> world" where
  "append_text p s w =
     w\<lparr>files := (files w)(p \<mapsto>
          TextFile ((case files w p of Some (TextFile t) \<Rightarrow> t | _ \<Rightarrow> []) @ s))\<rparr>"

definition print :: "string \<Rightarrow> world \<Rightarrow> world" where
  "print s w = w\<lparr>console := console w @ [s]\<rparr>"

definition tick :: "world \<Rightarrow> world" where
  "tick w = w\<lparr>ticks := Suc (ticks w)\<rparr>"

definition AnalysisLogger :: "lib \<Rightarrow> string \<Rightarrow> string \<Rightarrow> world \<Rightarrow> logger \<times> world" where
  "AnalysisLogger L txt docx w =
     (\<lparr>txt_path = txt, doc_path = docx,
        doc = [Heading ''Technical Data Analysis Report'' 0]\<rparr>,
      tick (write_text txt
        (''DATA ANALYSIS LOG | Generated: '' @ now_text L (ticks w) @ nl
           @ replicate 80 (CHR ''='') @ nl) w))"

fun log_section :: "string \<Rightarrow> nat \<Rightarrow> logger \<times> world \<Rightarrow> logger \<times> world" where
  "log_section title level (lg, w) =
     (lg\<lparr>doc := doc lg @ [Heading title level]\<rparr>,
      append_text (txt_path lg)
        (nl @ nl @ ''SECTION: '' @ title @ nl @ replicate 40 (CHR ''-'') @ nl)
        (print (nl @ ''--- '' @ upper title @ '' ---'') w))"

fun log_message :: "lib \<Rightarrow> string \<Rightarrow> logger \<times> world \<Rightarrow> logger \<times> world" where
  "log_message L message (lg, w) =
     (lg\<lparr>doc := doc lg @ [Paragraph message]\<rparr>,
      tick (append_text (txt_path lg) (now_hms L (ticks w) @ '' | '' @ message @ nl)
              (print message w)))"

definition empty_frame :: "table \<Rightarrow> bool" where
  "empty_frame t = (rows t = [] \<or> columns t = [])"

definition head_rows :: "nat \<Rightarrow> table \<Rightarrow> table" where
  "head_rows n t = \<lparr>columns = columns t, rows = take n (rows t)\<rparr>"

definition add_paragraph :: "string \<Rightarrow> logger \<times> world \<Rightarrow> logger \<times> world" where
  "add_paragraph s lw = ((fst lw)\<lparr>doc := doc (fst lw) @ [Paragraph s]\<rparr>, snd lw)"

definition log_table :: "lib \<Rightarrow> table \<Rightarrow> string \<Rightarrow> nat \<Rightarrow> logger \<times> world \<Rightarrow> logger \<times> world" where
  "log_table L t title max_rows lw =
     (let lw1 = (if title \<noteq> [] then log_message L title lw else lw)
      in if empty_frame t then add_paragraph ''No issues/data found for this metric.'' lw1
         else
           (let display_df = (if max_rows \<noteq> 0 then head_rows max_rows t else t);
                lw2 = ((fst lw1)\<lparr>doc := doc (fst lw1) @ [TableBlock display_df]\<rparr>, snd lw1);
                lw3 = (if max_rows < length (rows t)
                       then add_paragraph (''... [Truncated: ''
                              @ show_nat (length (rows t) - max_rows) @ '' more rows]'') lw2
                       else lw2)
            in add_paragraph [] lw3))"

fun save_report :: "logger \<times> world \<Rightarrow> logger \<times> world" where
  "save_report (lg, w) = (lg, w\<lparr>files := (files w)(doc_path lg \<mapsto> DocFile (doc lg))\<rparr>)"

section \<open>The pipeline\<close>

text \<open>
  The state of a run: the working frame, the logger object, and the world outside (files,
  console, clock). A stage that can raise returns \<open>Inl\<close> of the exception; what the files
  hold after an exception left the run is not modelled.
\<close>

type_synonym pstate = "table \<times> logger \<times> world"

definition and_then :: "error + 'a \<Rightarrow> ('a \<Rightarrow> error + 'b) \<Rightarrow> error + 'b" where
  "and_then r f = (case r of Inl e \<Rightarrow> Inl e | Inr v \<Rightarrow> f v)"

subsection \<open>Stage 1 and 2: assessment\<close>

definition missing_summary :: "table \<Rightarrow> table" where
  "missing_summary t =
     \<lparr>columns = [''index'', ''Missing Count''],
      rows = map (\<lambda>(c, n). [Str c, Num (Fin (of_nat n))])
               (filter (\<lambda>(c, n). 0 < n)
                  (zip (columns t)
                     (map (\<lambda>i. length (filter isna (col_values i (rows t))))
                        [0..<length (columns t)])))\<rparr>"

fun assess :: "lib \<Rightarrow> pstate \<Rightarrow> pstate" where
  "assess L (df, lw) =
     (let lw1 = log_section ''1. Data Quality Assessment'' 1 lw;
          lw2 = log_message L (''Initial Shape: '' @ show_nat (length (rows df)) @ '' rows, ''
                   @ show_nat (length (columns df)) @ '' columns.'') lw1;
          lw3 = log_table L (missing_summary df) ''Missing Values Summary'' 15 lw2;
          full_dups = count_full_duplicates (rows df);
          lw4 = log_message L (''Fully Duplicated Rows: '' @ show_nat full_dups) lw3
      in (df, lw4))"

definition check_mapping ::
  "lib \<Rightarrow> table \<Rightarrow> string \<Rightarrow> string \<Rightarrow> string \<Rightarrow> logger \<times> world \<Rightarrow> error + logger \<times> world" where
  "check_mapping L df key dep title lw =
     (if has_cols [key, dep] df
      then and_then (detect_inconsistencies df key (One dep))
             (\<lambda>inc. Inr (log_table L inc title 15 lw))
      else Inr lw)"

fun check_inconsistencies :: "lib \<Rightarrow> pstate \<Rightarrow> error + pstate" where
  "check_inconsistencies L (df, lw) =
     and_then (check_mapping L df ''Postal Code'' ''City''
                 ''Inconsistent Mapping: One Postal Code to Many Cities''
                 (log_section ''2. Logical Inconsistency Check'' 2 lw))
       (\<lambda>lw1. and_then (check_mapping L df ''Product ID'' ''Product Name''
                          ''Inconsistent Mapping: One Product ID to Many Names'' lw1)
       (\<lambda>lw2. Inr (df, lw2)))"

subsection \<open>Stage 3: derived columns\<close>

text \<open>
  \<^verbatim>\<open>(df['Profit'] / df['Sales']).replace([np.inf, -np.inf], 0)\<close>: the quotient row by
  row, then both infinities replaced by zero. A cell that is not a number raises
  \<^verbatim>\<open>TypeError\<close>.
\<close>

definition profit_margin :: "table \<Rightarrow> error + cell list" where
  "profit_margin df =
     and_then (collect (map (\<lambda>r. truediv (get df r ''Profit'') (get df r ''Sales'')) (rows df)))
       (\<lambda>qs. Inr (map (\<lambda>q. Num (replace_inf q)) qs))"

definition product_full_name :: "lib \<Rightarrow> table \<Rightarrow> cell list" where
  "product_full_name L df =
     map (\<lambda>r. Str (str_of L (get df r ''Product ID'') @ '' | ''
                  @ str_of L (get df r ''Product Name''))) (rows df)"

fun enrich :: "lib \<Rightarrow> pstate \<Rightarrow> error + pstate" where
  "enrich L (df, lw) =
     (let lw1 = log_section ''3. Calculations & KPI Enrichment'' 1 lw
      in and_then
           (if has_cols [''Profit'', ''Sales''] df
            then and_then (profit_margin df)
                   (\<lambda>vs. Inr (assign ''Profit_Margin'' vs df,
                              log_message L ''Added KPI: Profit_Margin (Profit / Sales)'' lw1))
            else Inr (df, lw1))
           (\<lambda>(df1, lw2).
              Inr (if has_cols [''Product ID'', ''Product Name''] df1
                   then (assign ''Product_Full_Name'' (product_full_name L df1) df1,
                         log_message L ''Added Attribute: Product_Full_Name'' lw2)
                   else (df1, lw2))))"

subsection \<open>Stage 4: cleaning\<close>

fun standardize :: "lib \<Rightarrow> pstate \<Rightarrow> pstate" where
  "standardize L (df, lw) =
     (df\<lparr>columns := map normalize_name (columns df)\<rparr>,
      log_message L ''Standardized column names to lowercase snake_case.'' lw)"

fun dedup :: "lib \<Rightarrow> pstate \<Rightarrow> pstate" where
  "dedup L (df, lw) =
     (let initial_count = int (length (rows df));
          df1 = df\<lparr>rows := drop_duplicates (rows df)\<rparr>
      in (df1, log_message L (''Dropped '' @ show_int (initial_count - int (length (rows df1)))
                                @ '' duplicate rows.'') lw))"

definition to_datetime :: "lib \<Rightarrow> cell list \<Rightarrow> cell list" where
  "to_datetime L vs =
     map (\<lambda>v. case parse_datetime L vs v of Some t \<Rightarrow> Date t | None \<Rightarrow> NaT) vs"

definition date_col_names :: "string list" where
  "date_col_names = map (\<lambda>c. replace_char (CHR '' '') (CHR ''_'') (lower c)) DATE_COLS"

definition quoted :: "string \<Rightarrow> string" where
  "quoted s = [CHR 0x27] @ s @ [CHR 0x27]"

fun parse_date_col :: "lib \<Rightarrow> string \<Rightarrow> pstate \<Rightarrow> error + pstate" where
  "parse_date_col L col (df, lw) =
     (if col \<in> set (columns df)
      then and_then (column_pos col df)
             (\<lambda>i. Inr (set_column i (to_datetime L (col_values i (rows df))) df,
                       log_message L (''Converted '' @ quoted col @ '' to datetime.'') lw))
      else Inr (df, lw))"

fun parse_dates :: "lib \<Rightarrow> string list \<Rightarrow> pstate \<Rightarrow> error + pstate" where
  "parse_dates L [] s = Inr s"
| "parse_dates L (col # cols) s = and_then (parse_date_col L col s) (parse_dates L cols)"

fun is_number :: "cell \<Rightarrow> bool" where
  "is_number (Num _) = True"
| "is_number _ = False"

text \<open>
  \<^verbatim>\<open>select_dtypes(include=[np.number])\<close>: a column is numeric when its type is; for a frame
  as the script builds it that is a column whose cells are numbers (the missing marker
  \<open>NaN\<close> among them).
\<close>

definition numeric_col :: "nat \<Rightarrow> table \<Rightarrow> bool" where
  "numeric_col i t = list_all (\<lambda>r. is_number (r ! i)) (rows t)"

definition num_cols_actual :: "table \<Rightarrow> string list" where
  "num_cols_actual t =
     map fst (filter (\<lambda>(c, i). numeric_col i t) (zip (columns t) [0..<length (columns t)]))"

definition fillna :: "fl \<Rightarrow> cell list \<Rightarrow> cell list" where
  "fillna m vs = map (\<lambda>v. if isna v then Num m else v) vs"

fun impute_col :: "lib \<Rightarrow> string \<Rightarrow> pstate \<Rightarrow> error + pstate" where
  "impute_col L col (df, lw) =
     and_then (column_pos col df)
       (\<lambda>i. let vs = col_values i (rows df)
            in if list_ex isna vs
               then (let median_val = median vs
                     in Inr (set_column i (fillna median_val vs) df,
                             log_message L (''Imputed missing values in '' @ quoted col
                                @ '' with median: '' @ str_of L (Num median_val)) lw))
               else Inr (df, lw))"

fun impute_cols :: "lib \<Rightarrow> string list \<Rightarrow> pstate \<Rightarrow> error + pstate" where
  "impute_cols L [] s = Inr s"
| "impute_cols L (col # cols) s = and_then (impute_col L col s) (impute_cols L cols)"

definition impute :: "lib \<Rightarrow> pstate \<Rightarrow> error + pstate" where
  "impute L s = impute_cols L (num_cols_actual (fst s)) s"

fun clean :: "lib \<Rightarrow> pstate \<Rightarrow> error + pstate" where
  "clean L (df, lw) =
     and_then
       (parse_dates L date_col_names
          (dedup L (standardize L (df, log_section ''4. Data Cleaning & Transformation Log'' 1 lw))))
       (impute L)"

subsection \<open>Stage 5 and the run\<close>

fun finalize :: "lib \<Rightarrow> pstate \<Rightarrow> world" where
  "finalize L (df, lw) =
     (let lw1 = log_section ''5. Final Dataset Summary'' 1 lw;
          lw2 = log_message L (''Final Row Count: '' @ show_nat (length (rows df))) lw1;
          lw3 = (fst lw2, (snd lw2)\<lparr>files := (files (snd lw2))(CLEAN_DATA_PATH \<mapsto> CsvFile df)\<rparr>);
          lw4 = log_message L (''Cleaned dataset exported to: '' @ CLEAN_DATA_PATH) lw3;
          lw5 = save_report lw4
      in print (nl @ ''Process Complete. See '' @ quoted REPORT_PATH @ '' for the full analysis.'')
           (snd lw5))"

text \<open>
  \<^verbatim>\<open>run_pipeline()\<close>. The input file is read as the frame it holds (\<^verbatim>\<open>read_csv\<close> is not
  modelled); on a normal return the result is \<open>Inr\<close> of the world after the run.
\<close>

definition run_pipeline :: "lib \<Rightarrow> world \<Rightarrow> error + world" where
  "run_pipeline L w =
     (let lw = AnalysisLogger L LOG_PATH REPORT_PATH w
      in if files (snd lw) RAW_DATA_PATH = None
         then Inr (snd (log_message L (''CRITICAL: '' @ RAW_DATA_PATH @ '' not found.'') lw))
         else (case files (snd lw) RAW_DATA_PATH of
                 Some (CsvFile df) \<Rightarrow>
                   and_then (check_inconsistencies L (assess L (df, lw)))
                     (\<lambda>s1. and_then (enrich L s1)
                     (\<lambda>s2. and_then (clean L s2)
                     (\<lambda>s3. Inr (finalize L s3))))
               | _ \<Rightarrow> Inl ParserError))"

section \<open>Vocabulary of the properties\<close>

text \<open>
  A row is complete on a list of columns when none of its cells there is missing. A key
  value is violated when, among the complete rows, it stands beside two different values
  in one dependent column.
\<close>

definition complete :: "table \<Rightarrow> string list \<Rightarrow> row \<Rightarrow> bool" where
  "complete df cs r = list_all (\<lambda>c. \<not> isna (get df r c)) cs"

definition complete_rows :: "table \<Rightarrow> string list \<Rightarrow> row list" where
  "complete_rows df cs = filter (complete df cs) (rows df)"

definition violated :: "table \<Rightarrow> string \<Rightarrow> string list \<Rightarrow> cell \<Rightarrow> bool" where
  "violated df col1 col2 v =
     list_ex (\<lambda>d.
       list_ex (\<lambda>r1. list_ex (\<lambda>r2.
           get df r1 col1 = v \<and> get df r2 col1 = v \<and> get df r1 d \<noteq> get df r2 d)
         (complete_rows df (col1 # col2)))
       (complete_rows df (col1 # col2))) col2"

definition tuple :: "table \<Rightarrow> string list \<Rightarrow> row \<Rightarrow> row" where
  "tuple df cs r = map (get df r) cs"

definition inconsistent_rows :: "table \<Rightarrow> string \<Rightarrow> string list \<Rightarrow> row list" where
  "inconsistent_rows df col1 col2 =
     filter (\<lambda>r. violated df col1 col2 (get df r col1)) (complete_rows df (col1 # col2))"

text \<open>
  The column of a frame under a name, as the list of its cells from the first row to the
  last; the position of a name; and, for the proofs, the replacement of one column by a
  function of it, once and along a list of names.
\<close>

definition column :: "table \<Rightarrow> string \<Rightarrow> cell list" where
  "column t c = map (\<lambda>r. get t r c) (rows t)"

definition pos :: "table \<Rightarrow> string \<Rightarrow> nat" where
  "pos t c = the (index_of c (columns t))"




definition norm_char :: "char \<Rightarrow> char" where
  "norm_char c = lower_char (if c = CHR '' '' then CHR ''_'' else c)"

text \<open>The two texts the run writes to the log when the input file is missing.\<close>

definition log_header :: "lib \<Rightarrow> world \<Rightarrow> string" where
  "log_header L w =
     ''DATA ANALYSIS LOG | Generated: '' @ now_text L (ticks w) @ nl @ replicate 80 (CHR ''='') @ nl"

definition critical_line :: "lib \<Rightarrow> world \<Rightarrow> string" where
  "critical_line L w =
     now_hms L (Suc (ticks w)) @ '' | '' @ ''CRITICAL: '' @ RAW_DATA_PATH @ '' not found.'' @ nl"

section \<open>Examples\<close>

definition ex_lib :: lib where
  "ex_lib =
     \<lparr>now_text = (\<lambda>n. ''2026-01-01 00:00:0'' @ show_nat n),
      now_hms = (\<lambda>n. ''00:00:0'' @ show_nat n),
      str_of = (\<lambda>c. case c of Str s \<Rightarrow> s | _ \<Rightarrow> ''nan''),
      parse_datetime = (\<lambda>vs v. case v of Str s \<Rightarrow> (if s = ''2020-01-01'' then Some 18262 else None)
                                  | _ \<Rightarrow> None)\<rparr>"

definition ex_logger :: logger where
  "ex_logger = \<lparr>txt_path = LOG_PATH, doc_path = REPORT_PATH, doc = []\<rparr>"

definition ex_world :: world where
  "ex_world = \<lparr>files = Map.empty, console = [], ticks = 0\<rparr>"

text \<open>A small frame of postal codes and cities, for the examples.\<close>

definition ex_postal :: table where
  "ex_postal =
     \<lparr>columns = [''Postal Code'', ''City''],
      rows = [[Num (Fin 90001), Str ''Los Angeles''],
              [Num (Fin 10001), Str ''Los Angeles''],
              [Num (Fin 10001), Str ''San Francisco''],
              [Num (Fin 10001), Str ''Los Angeles''],
              [Num (Fin 10001), Num NaN],
              [Num NaN, Str ''Boston'']]\<rparr>"

definition ex_consistent :: table where
  "ex_consistent =
     \<lparr>columns = [''Postal Code'', ''City''],
      rows = [[Num (Fin 90001), Str ''Los Angeles''],
              [Num (Fin 10001), Str ''New York''],
              [Num (Fin 10001), Str ''New York''],
              [Num (Fin 10001), Num NaN]]\<rparr>"

definition ex_store :: store where
  "ex_store = [ex_consistent, ex_postal]"

definition ex_dup_rows :: "row list" where
  "ex_dup_rows = [[Num (Fin 1)], [Str ''a''], [Num (Fin 1)], [Num (Fin 1)], [Str ''a''], [NaT]]"

definition ex_dup_table :: table where
  "ex_dup_table = \<lparr>columns = [''a''], rows = ex_dup_rows\<rparr>"






text \<open>A frame of profits and sales with a sale of zero, with and without a profit.\<close>

definition ex_sales :: table where
  "ex_sales =
     \<lparr>columns = [''Profit'', ''Sales''],
      rows = [[Num (Fin 25), Num (Fin 100)],
              [Num (Fin 5), Num (Fin 0)],
              [Num (Fin 0), Num (Fin 0)]]\<rparr>"

definition ex_sales_world :: world where
  "ex_sales_world = \<lparr>files = [RAW_DATA_PATH \<mapsto> CsvFile ex_sales], console = [], ticks = 0\<rparr>"

section \<open>Duplicates: the count and the removal\<close>

lemma length_duplicated_from: "length (duplicated_from seen rs) = length rs"
  by (induction rs arbitrary: seen) auto

lemma duplicated_from_nth:
  "i < length rs \<Longrightarrow>
   duplicated_from seen rs ! i = (rs ! i \<in> set seen \<or> (\<exists>j<i. rs ! j = rs ! i))"
proof (induction rs arbitrary: seen i)
  case Nil
  then show ?case by simp
next
  case (Cons r rs)
  show ?case
  proof (cases i)
    case 0
    then show ?thesis by simp
  next
    case (Suc n)
    with Cons.prems have n: "n < length rs" by simp
    have "(\<exists>j<Suc n. (r # rs) ! j = rs ! n) = (r = rs ! n \<or> (\<exists>j<n. rs ! j = rs ! n))"
      by (auto simp: less_Suc_eq_0_disj)
    with Cons.IH [OF n, of "r # seen"] Suc show ?thesis by auto
  qed
qed

lemma duplicated_nth:
  "i < length rs \<Longrightarrow> duplicated rs ! i = (\<exists>j<i. rs ! j = rs ! i)"
  unfolding duplicated_def using duplicated_from_nth [of i rs "[]"] by simp

lemma length_duplicated: "length (duplicated rs) = length rs"
  by (simp add: duplicated_def length_duplicated_from)

lemma kept_from_set:
  "set (map fst (filter (\<lambda>(r, d). \<not> d) (zip rs (duplicated_from seen rs)))) = set rs - set seen"
  by (induction rs arbitrary: seen) auto

lemma kept_from_distinct:
  "distinct (map fst (filter (\<lambda>(r, d). \<not> d) (zip rs (duplicated_from seen rs))))"
proof (induction rs arbitrary: seen)
  case Nil
  then show ?case by simp
next
  case (Cons r rs)
  have "r \<notin> set (map fst (filter (\<lambda>(r, d). \<not> d) (zip rs (duplicated_from (r # seen) rs))))"
    unfolding kept_from_set by simp
  with Cons.IH [of "r # seen"] show ?case by simp
qed

lemma set_drop_duplicates: "set (drop_duplicates rs) = set rs"
  unfolding drop_duplicates_def duplicated_def kept_from_set by simp

lemma distinct_drop_duplicates: "distinct (drop_duplicates rs)"
  unfolding drop_duplicates_def duplicated_def by (rule kept_from_distinct)

lemma length_kept_from:
  "length (filter (\<lambda>(r, d). \<not> d) (zip rs (duplicated_from seen rs)))
     + length (filter (\<lambda>d. d) (duplicated_from seen rs)) = length rs"
  by (induction rs arbitrary: seen) auto

lemma length_drop_duplicates:
  "length (drop_duplicates rs) + count_full_duplicates rs = length rs"
  by (simp add: drop_duplicates_def count_full_duplicates_def duplicated_def length_kept_from)

lemma length_drop_duplicates_card: "length (drop_duplicates rs) = card (set rs)"
  using distinct_card [OF distinct_drop_duplicates, of rs] by (simp add: set_drop_duplicates)

lemma count_full_duplicates_card: "count_full_duplicates rs = length rs - card (set rs)"
  using length_drop_duplicates [of rs] by (simp add: length_drop_duplicates_card)

lemma sum_count_minus_one:
  "(\<Sum>r\<in>set rs. count_list rs r - 1) = length rs - card (set rs)"
proof -
  have "(\<Sum>r\<in>set rs. count_list rs r - 1) = (\<Sum>r\<in>set rs. count_list rs r) - (\<Sum>r\<in>set rs. 1)"
  proof (rule sum_subtractf_nat)
    fix r assume "r \<in> set rs"
    then have "count_list rs r \<noteq> 0" by (simp add: count_list_0_iff)
    then show "1 \<le> count_list rs r" by simp
  qed
  also have "(\<Sum>r\<in>set rs. count_list rs r) = length rs"
    by (rule sum_count_set) simp_all
  finally show ?thesis by simp
qed

lemma assess_logs_count:
  "last (doc (fst (snd (assess L (df, lw)))))
     = Paragraph (''Fully Duplicated Rows: '' @ show_nat (count_full_duplicates (rows df)))"
proof -
  define lw3 where "lw3 = log_table L (missing_summary df) ''Missing Values Summary'' 15
     (log_message L (''Initial Shape: '' @ show_nat (length (rows df)) @ '' rows, ''
                   @ show_nat (length (columns df)) @ '' columns.'')
        (log_section ''1. Data Quality Assessment'' 1 lw))"
  obtain lg3 w3 where p: "lw3 = (lg3, w3)" by (cases lw3)
  have "assess L (df, lw)
          = (df, log_message L (''Fully Duplicated Rows: ''
                @ show_nat (count_full_duplicates (rows df))) lw3)"
    by (simp add: Let_def lw3_def)
  then show ?thesis by (simp add: p)
qed

text \<open>
  Claim C8. The count of full duplicates that the assessment computes and logs,
  \<^verbatim>\<open>df.duplicated().sum()\<close>, is the number of rows that equal a row before them: of \<open>k\<close>
  equal rows the first does not count and the other \<open>k - 1\<close> do.
\<close>

theorem count_full_duplicates_correct:
  "count_full_duplicates (rows df)
     = card {i. i < length (rows df) \<and> (\<exists>j<i. rows df ! j = rows df ! i)}
   \<and> count_full_duplicates (rows df) = (\<Sum>r\<in>set (rows df). count_list (rows df) r - 1)
   \<and> last (doc (fst (snd (assess L (df, lw)))))
       = Paragraph (''Fully Duplicated Rows: '' @ show_nat (count_full_duplicates (rows df)))"
proof (intro conjI)
  have "count_full_duplicates (rows df)
          = card {i. i < length (duplicated (rows df)) \<and> duplicated (rows df) ! i}"
    unfolding count_full_duplicates_def by (rule length_filter_conv_card)
  also have "{i. i < length (duplicated (rows df)) \<and> duplicated (rows df) ! i}
               = {i. i < length (rows df) \<and> (\<exists>j<i. rows df ! j = rows df ! i)}"
    using duplicated_nth [of _ "rows df"] by (auto simp: length_duplicated)
  finally show "count_full_duplicates (rows df)
     = card {i. i < length (rows df) \<and> (\<exists>j<i. rows df ! j = rows df ! i)}" .
  show "count_full_duplicates (rows df) = (\<Sum>r\<in>set (rows df). count_list (rows df) r - 1)"
    by (simp only: sum_count_minus_one count_full_duplicates_card)
  show "last (doc (fst (snd (assess L (df, lw)))))
       = Paragraph (''Fully Duplicated Rows: '' @ show_nat (count_full_duplicates (rows df)))"
    by (rule assess_logs_count)
qed

theorem count_full_duplicates_correct_witness:
  "count_full_duplicates (rows ex_dup_table)
     = card {i. i < length (rows ex_dup_table)
               \<and> (\<exists>j<i. rows ex_dup_table ! j = rows ex_dup_table ! i)}
   \<and> count_full_duplicates (rows ex_dup_table)
       = (\<Sum>r\<in>set (rows ex_dup_table). count_list (rows ex_dup_table) r - 1)
   \<and> last (doc (fst (snd (assess ex_lib (ex_dup_table, ex_logger, ex_world)))))
       = Paragraph (''Fully Duplicated Rows: ''
           @ show_nat (count_full_duplicates (rows ex_dup_table)))
   \<and> count_full_duplicates (rows ex_dup_table) = 3
   \<and> last (doc (fst (snd (assess ex_lib (ex_dup_table, ex_logger, ex_world)))))
       = Paragraph ''Fully Duplicated Rows: 3''"
proof -
  have 1: "count_full_duplicates (rows ex_dup_table) = 3"
    by (simp add: count_full_duplicates_def duplicated_def ex_dup_rows_def ex_dup_table_def)
  have 2: "last (doc (fst (snd (assess ex_lib (ex_dup_table, ex_logger, ex_world)))))
       = Paragraph ''Fully Duplicated Rows: 3''"
    by code_simp
  from count_full_duplicates_correct
         [where df = ex_dup_table and L = ex_lib and lw = "(ex_logger, ex_world)"] 1 2
  show ?thesis by blast
qed

text \<open>
  Claim C5. After the duplicate removal no two rows of the frame are equal (and no row
  other than a repeated one is lost); the count in the logged message is the number of
  rows before minus the number of rows after, which is the number of duplicated rows.
\<close>

theorem dedup_correct:
  "(case dedup L (df, lg, w) of
      (df', lg', w') \<Rightarrow>
        distinct (rows df') \<and> set (rows df') = set (rows df) \<and> columns df' = columns df
        \<and> doc lg' = doc lg @ [Paragraph (''Dropped ''
              @ show_int (int (length (rows df)) - int (length (rows df'))) @ '' duplicate rows.'')]
        \<and> console w' = console w @ [''Dropped ''
              @ show_int (int (length (rows df)) - int (length (rows df'))) @ '' duplicate rows.'']
        \<and> int (length (rows df)) - int (length (rows df')) = int (count_full_duplicates (rows df)))"
proof -
  have "int (length (rows df)) - int (length (drop_duplicates (rows df)))
          = int (count_full_duplicates (rows df))"
    using length_drop_duplicates [of "rows df"] by linarith
  then show ?thesis
    by (simp add: Let_def distinct_drop_duplicates set_drop_duplicates print_def tick_def
          append_text_def)
qed

theorem dedup_correct_witness:
  "(case dedup ex_lib (ex_dup_table, ex_logger, ex_world) of
      (df', lg', w') \<Rightarrow>
        distinct (rows df') \<and> set (rows df') = set (rows ex_dup_table)
        \<and> columns df' = columns ex_dup_table
        \<and> doc lg' = doc ex_logger @ [Paragraph (''Dropped ''
              @ show_int (int (length (rows ex_dup_table)) - int (length (rows df')))
              @ '' duplicate rows.'')]
        \<and> console w' = console ex_world @ [''Dropped ''
              @ show_int (int (length (rows ex_dup_table)) - int (length (rows df')))
              @ '' duplicate rows.'']
        \<and> int (length (rows ex_dup_table)) - int (length (rows df'))
            = int (count_full_duplicates (rows ex_dup_table)))
   \<and> rows (fst (dedup ex_lib (ex_dup_table, ex_logger, ex_world)))
       = [[Num (Fin 1)], [Str ''a''], [NaT]]
   \<and> doc (fst (snd (dedup ex_lib (ex_dup_table, ex_logger, ex_world))))
       = [Paragraph ''Dropped 3 duplicate rows.'']"
proof -
  have "rows (fst (dedup ex_lib (ex_dup_table, ex_logger, ex_world)))
          = [[Num (Fin 1)], [Str ''a''], [NaT]]"
    by (simp add: Let_def ex_dup_table_def ex_dup_rows_def drop_duplicates_def duplicated_def)
  moreover have "doc (fst (snd (dedup ex_lib (ex_dup_table, ex_logger, ex_world))))
       = [Paragraph ''Dropped 3 duplicate rows.'']"
    by (simp add: Let_def ex_dup_table_def ex_dup_rows_def drop_duplicates_def duplicated_def
          ex_logger_def show_int_def show_nat.simps)
  ultimately show ?thesis
    using dedup_correct [where L = ex_lib and df = ex_dup_table and lg = ex_logger and w = ex_world]
    by blast
qed

section \<open>Inconsistency detection: the result\<close>

lemma index_of_None: "index_of c cs = None \<longleftrightarrow> c \<notin> set cs"
  by (induction cs) auto


lemma those_map_Some:
  "(\<And>x. x \<in> set xs \<Longrightarrow> f x \<noteq> None) \<Longrightarrow> those (map f xs) = Some (map (\<lambda>x. the (f x)) xs)"
  by (induction xs) (auto split: option.splits)

lemma nunique_gt1:
  "1 < nunique vs \<longleftrightarrow> (\<exists>a\<in>set vs. \<exists>b\<in>set vs. \<not> isna a \<and> \<not> isna b \<and> a \<noteq> b)"
proof -
  let ?S = "set (filter (\<lambda>v. \<not> isna v) vs)"
  have n: "nunique vs = card ?S"
    unfolding nunique_def by (rule length_remdups_card_conv)
  have "card ?S \<le> Suc 0 \<longleftrightarrow> (\<forall>a\<in>?S. \<forall>b\<in>?S. a = b)"
    by (rule card_le_Suc0_iff_eq) simp
  then have "1 < card ?S \<longleftrightarrow> (\<exists>a\<in>?S. \<exists>b\<in>?S. a \<noteq> b)"
    by (simp add: not_le [symmetric] del: set_filter)
  with n show ?thesis by auto
qed




lemma positions_Some:
  assumes "set cs \<subseteq> set (columns df)"
  shows "those (map (\<lambda>c. index_of c (columns df)) cs)
           = Some (map (\<lambda>c. the (index_of c (columns df))) cs)"
  using assms by (intro those_map_Some) (auto simp: index_of_None)

lemma dropna_complete:
  "dropna (map (\<lambda>c. the (index_of c (columns df))) cs) (rows df) = complete_rows df cs"
  unfolding dropna_def complete_rows_def
  by (rule filter_cong) (simp_all add: complete_def get_def list_all_iff)

lemma select_cols_tuple:
  "select_cols (map (\<lambda>c. the (index_of c (columns df))) cs) rs = map (tuple df cs) rs"
  by (simp add: select_cols_def tuple_def get_def)

lemma complete_notna: "complete df cs r \<Longrightarrow> c \<in> set cs \<Longrightarrow> \<not> isna (get df r c)"
  by (simp add: complete_def list_all_iff)

lemma group_violated:
  assumes r: "r \<in> set (complete_rows df (col1 # col2))"
  shows "any_nunique_gt1 (map (\<lambda>c. the (index_of c (columns df))) col2)
           (filter (\<lambda>r'. r' ! the (index_of col1 (columns df)) = r ! the (index_of col1 (columns df)))
              (complete_rows df (col1 # col2)))
         \<longleftrightarrow> violated df col1 col2 (get df r col1)"
proof -
  let ?R = "complete_rows df (col1 # col2)"
  have na: "\<And>r' d. r' \<in> set ?R \<Longrightarrow> d \<in> set col2 \<Longrightarrow> \<not> isna (get df r' d)"
    by (auto simp: complete_rows_def dest: complete_notna)
  show ?thesis
    unfolding any_nunique_gt1_def violated_def list_ex_iff nunique_gt1 col_values_def
    using na by (auto simp: get_def) blast+
qed

lemma groupby_filter_violated:
  "groupby_filter (the (index_of col1 (columns df)))
      (any_nunique_gt1 (map (\<lambda>c. the (index_of c (columns df))) col2))
      (complete_rows df (col1 # col2))
   = inconsistent_rows df col1 col2"
  unfolding groupby_filter_def inconsistent_rows_def
proof (rule filter_cong [OF refl])
  fix r assume r: "r \<in> set (complete_rows df (col1 # col2))"
  then have "\<not> isna (get df r col1)"
    by (auto simp: complete_rows_def dest: complete_notna)
  then show "(\<not> isna (r ! the (index_of col1 (columns df))) \<and>
          any_nunique_gt1 (map (\<lambda>c. the (index_of c (columns df))) col2)
            (filter (\<lambda>r'. r' ! the (index_of col1 (columns df)) = r ! the (index_of col1 (columns df)))
              (complete_rows df (col1 # col2))))
        = violated df col1 col2 (get df r col1)"
    using group_violated [OF r] by (simp add: get_def)
qed

lemma detect_inconsistencies_unfold:
  assumes c1: "col1 \<in> set (columns df)" and c2: "set (as_list col2a) \<subseteq> set (columns df)"
    and ne: "col1 \<notin> set (as_list col2a)"
  shows "detect_inconsistencies df col1 col2a =
     (case sort_values 0 (drop_duplicates (map (tuple df (col1 # as_list col2a))
                            (inconsistent_rows df col1 (as_list col2a)))) of
        Inl e \<Rightarrow> Inl e
      | Inr s \<Rightarrow> Inr \<lparr>columns = col1 # as_list col2a, rows = s\<rparr>)"
proof -
  let ?pos = "\<lambda>c. the (index_of c (columns df))"
  let ?cs = "col1 # as_list col2a"
  have sub: "set ?cs \<subseteq> set (columns df)" using c1 c2 by simp
  have p: "those (map (\<lambda>c. index_of c (columns df)) ?cs) = Some (map ?pos ?cs)"
    by (rule positions_Some [OF sub])
  have d: "dropna (map ?pos ?cs) (rows df) = complete_rows df ?cs"
    by (rule dropna_complete)
  have g: "groupby_filter (hd (map ?pos ?cs)) (any_nunique_gt1 (tl (map ?pos ?cs)))
             (complete_rows df ?cs) = inconsistent_rows df col1 (as_list col2a)"
    using groupby_filter_violated [of col1 df "as_list col2a"] by simp
  show ?thesis
    unfolding detect_inconsistencies_def Let_def p option.case d g select_cols_tuple
    using ne by simp
qed



lemma violated_iff:
  "violated df col1 col2 v \<longleftrightarrow>
     (\<exists>d\<in>set col2. \<exists>r1\<in>set (complete_rows df (col1 # col2)).
        \<exists>r2\<in>set (complete_rows df (col1 # col2)).
          get df r1 col1 = v \<and> get df r2 col1 = v \<and> get df r1 d \<noteq> get df r2 d)"
  by (simp add: violated_def list_ex_iff)







text \<open>
  Claim C7. When among the complete rows equal keys go with equal dependent tuples, the
  result is the empty frame of the columns key, dependent..., a value and not an error.
\<close>

theorem detect_inconsistencies_empty:
  assumes wf: "wf_table df"
    and c1: "col1 \<in> set (columns df)" and c2: "set (as_list col2) \<subseteq> set (columns df)"
    and ne: "col1 \<notin> set (as_list col2)"
    and fd: "\<forall>r1\<in>set (complete_rows df (col1 # as_list col2)).
             \<forall>r2\<in>set (complete_rows df (col1 # as_list col2)).
               get df r1 col1 = get df r2 col1 \<longrightarrow>
               tuple df (as_list col2) r1 = tuple df (as_list col2) r2"
  shows "detect_inconsistencies df col1 col2 = Inr \<lparr>columns = col1 # as_list col2, rows = []\<rparr>"
proof -
  have nv: "\<not> violated df col1 (as_list col2) v" for v
  proof
    assume "violated df col1 (as_list col2) v"
    then obtain d r1 r2 where d: "d \<in> set (as_list col2)"
      and r: "r1 \<in> set (complete_rows df (col1 # as_list col2))"
             "r2 \<in> set (complete_rows df (col1 # as_list col2))"
      and k: "get df r1 col1 = v" "get df r2 col1 = v" and neq: "get df r1 d \<noteq> get df r2 d"
      unfolding violated_iff by blast
    from k have "get df r1 col1 = get df r2 col1" by simp
    with fd r have "tuple df (as_list col2) r1 = tuple df (as_list col2) r2" by blast
    then have "map (get df r1) (as_list col2) = map (get df r2) (as_list col2)"
      by (simp only: tuple_def)
    then have "\<forall>c\<in>set (as_list col2). get df r1 c = get df r2 c"
      by (simp only: map_eq_conv)
    with d have "get df r1 d = get df r2 d" by blast
    with neq show False by contradiction
  qed
  have "inconsistent_rows df col1 (as_list col2) = []"
    unfolding inconsistent_rows_def by (simp add: nv)
  moreover have "drop_duplicates ([] :: row list) = []"
    by (simp add: drop_duplicates_def duplicated_def)
  moreover have "sort_values 0 [] = Inr []"
    by (simp add: sort_values_def one_kind_def col_values_def)
  ultimately show ?thesis
    unfolding detect_inconsistencies_unfold [OF c1 c2 ne] by simp
qed

theorem detect_inconsistencies_empty_witness:
  "wf_table ex_consistent
   \<and> ''Postal Code'' \<in> set (columns ex_consistent)
   \<and> set (as_list (One ''City'')) \<subseteq> set (columns ex_consistent)
   \<and> ''Postal Code'' \<notin> set (as_list (One ''City''))
   \<and> detect_inconsistencies ex_consistent ''Postal Code'' (One ''City'')
       = Inr \<lparr>columns = [''Postal Code'', ''City''], rows = []\<rparr>"
proof -
  have h1: "wf_table ex_consistent" by (simp add: wf_table_def ex_consistent_def)
  have h2: "''Postal Code'' \<in> set (columns ex_consistent)" by (simp add: ex_consistent_def)
  have h3: "set (as_list (One ''City'')) \<subseteq> set (columns ex_consistent)"
    by (simp add: ex_consistent_def)
  have h4: "''Postal Code'' \<notin> set (as_list (One ''City''))" by simp
  have rs: "complete_rows ex_consistent (''Postal Code'' # as_list (One ''City'')) =
       [[Num (Fin 90001), Str ''Los Angeles''],
        [Num (Fin 10001), Str ''New York''],
        [Num (Fin 10001), Str ''New York'']]"
    by (simp add: complete_rows_def complete_def get_def ex_consistent_def)
  have h5: "\<forall>r1\<in>set (complete_rows ex_consistent (''Postal Code'' # as_list (One ''City''))).
             \<forall>r2\<in>set (complete_rows ex_consistent (''Postal Code'' # as_list (One ''City''))).
               get ex_consistent r1 ''Postal Code'' = get ex_consistent r2 ''Postal Code'' \<longrightarrow>
               tuple ex_consistent (as_list (One ''City'')) r1
                 = tuple ex_consistent (as_list (One ''City'')) r2"
    unfolding rs by (simp add: get_def tuple_def ex_consistent_def)
  from detect_inconsistencies_empty [OF h1 h2 h3 h4 h5] h1 h2 h3 h4
  show ?thesis by simp
qed

text \<open>
  Claim C10. A call of \<open>detect_inconsistencies\<close> leaves the caller's frame, and every
  frame that existed before the call, as it was: same columns, rows and values; the new
  frames stand behind them in the store. The outcome is that of the function on values.
\<close>

theorem detect_inconsistencies_frame:
  assumes "df < length h"
  shows "(case detect_inconsistencies_obj h df col1 col2 of
            (r, h') \<Rightarrow>
              h' ! df = h ! df
              \<and> take (length h) h' = h
              \<and> (case r of
                    Inl e \<Rightarrow> detect_inconsistencies (h ! df) col1 col2 = Inl e
                  | Inr a \<Rightarrow> a < length h' \<and> detect_inconsistencies (h ! df) col1 col2 = Inr (h' ! a)))"
  using assms
  by (auto simp: detect_inconsistencies_obj_def detect_inconsistencies_def alloc_def Let_def
        nth_append split: option.splits sum.splits)

theorem detect_inconsistencies_frame_witness:
  "(1::nat) < length ex_store
   \<and> (case detect_inconsistencies_obj ex_store 1 ''Postal Code'' (One ''City'') of
            (r, h') \<Rightarrow>
              h' ! 1 = ex_store ! 1
              \<and> take (length ex_store) h' = ex_store
              \<and> (case r of
                    Inl e \<Rightarrow> detect_inconsistencies (ex_store ! 1) ''Postal Code'' (One ''City'') = Inl e
                  | Inr a \<Rightarrow> a < length h'
                       \<and> detect_inconsistencies (ex_store ! 1) ''Postal Code'' (One ''City'') = Inr (h' ! a)))
   \<and> fst (detect_inconsistencies_obj ex_store 1 ''Postal Code'' (One ''City'')) = Inr 7
   \<and> snd (detect_inconsistencies_obj ex_store 1 ''Postal Code'' (One ''City'')) ! 1 = ex_postal
   \<and> snd (detect_inconsistencies_obj ex_store 1 ''Postal Code'' (One ''City'')) ! 7
       = \<lparr>columns = [''Postal Code'', ''City''],
          rows = [[Num (Fin 10001), Str ''Los Angeles''],
                  [Num (Fin 10001), Str ''San Francisco'']]\<rparr>"
proof -
  have h: "(1::nat) < length ex_store" by (simp add: ex_store_def)
  have 1: "fst (detect_inconsistencies_obj ex_store 1 ''Postal Code'' (One ''City'')) = Inr 7"
    by code_simp
  have 2: "snd (detect_inconsistencies_obj ex_store 1 ''Postal Code'' (One ''City'')) ! 1 = ex_postal"
    by code_simp
  have 3: "snd (detect_inconsistencies_obj ex_store 1 ''Postal Code'' (One ''City'')) ! 7
       = \<lparr>columns = [''Postal Code'', ''City''],
          rows = [[Num (Fin 10001), Str ''Los Angeles''],
                  [Num (Fin 10001), Str ''San Francisco'']]\<rparr>"
    by code_simp
  from detect_inconsistencies_frame [OF h, of "''Postal Code''" "One ''City''"] h 1 2 3
  show ?thesis by blast
qed

section \<open>Column names\<close>

lemma last_dropWhile: "dropWhile P xs \<noteq> [] \<Longrightarrow> last (dropWhile P xs) = last xs"
  by (induction xs) (auto split: if_splits)

lemma strip_ends:
  assumes "strip s \<noteq> []"
  shows "\<not> is_space (hd (strip s)) \<and> \<not> is_space (last (strip s))"
proof -
  let ?u = "dropWhile is_space s"
  let ?v = "dropWhile is_space (rev ?u)"
  from assms have v: "?v \<noteq> []" by (simp add: strip_def)
  have u: "?u \<noteq> []"
  proof
    assume "?u = []"
    then have "?v = []" by (simp only: rev.simps dropWhile.simps)
    with v show False by contradiction
  qed
  have "\<not> is_space (hd ?v)" using v by (rule hd_dropWhile)
  moreover have "last ?v = last (rev ?u)" using v by (rule last_dropWhile)
  then have "last ?v = hd ?u" using u by (simp add: last_rev)
  moreover have "\<not> is_space (hd ?u)" using u by (rule hd_dropWhile)
  ultimately show ?thesis using v by (simp add: strip_def hd_rev last_rev)
qed

lemma strip_id:
  assumes "s = [] \<or> (\<not> is_space (hd s) \<and> \<not> is_space (last s))"
  shows "strip s = s"
proof (cases "s = []")
  case True
  then show ?thesis by (simp add: strip_def)
next
  case False
  with assms have h: "\<not> is_space (hd s)" and l: "\<not> is_space (last s)" by auto
  from False h have 1: "dropWhile is_space s = s" by (cases s) auto
  from False l have "\<not> is_space (hd (rev s))" by (simp add: hd_rev)
  with False have 2: "dropWhile is_space (rev s) = rev s" by (cases "rev s") auto
  show ?thesis by (simp add: strip_def 1 2)
qed

lemma normalize_name_map: "normalize_name s = map norm_char (strip s)"
  by (simp add: normalize_name_def lower_def replace_char_def norm_char_def)

lemma norm_char_idem: "norm_char (norm_char c) = norm_char c"
  by (simp add: norm_char_def lower_char_def)

lemma norm_char_space: "\<not> is_space c \<Longrightarrow> \<not> is_space (norm_char c)"
  by (simp add: norm_char_def lower_char_def is_space_def)

lemma normalize_name_idem: "normalize_name (normalize_name s) = normalize_name s"
proof -
  let ?t = "map norm_char (strip s)"
  have "strip ?t = ?t"
  proof (rule strip_id, cases "strip s = []")
    case True
    then show "?t = [] \<or> (\<not> is_space (hd ?t) \<and> \<not> is_space (last ?t))" by simp
  next
    case False
    from strip_ends [OF False] False
    show "?t = [] \<or> (\<not> is_space (hd ?t) \<and> \<not> is_space (last ?t))"
      by (simp add: hd_map last_map norm_char_space)
  qed
  then show ?thesis
    by (simp add: normalize_name_map norm_char_idem)
qed

text \<open>
  Claim C6. Normalizing the column names twice gives the names that normalizing once
  gives.
\<close>

theorem normalize_columns_idempotent:
  "map normalize_name (map normalize_name cs) = map normalize_name cs
   \<and> columns (fst (standardize L (standardize L (df, lw)))) = columns (fst (standardize L (df, lw)))"
  by (simp add: normalize_name_idem)

theorem normalize_columns_idempotent_witness:
  "map normalize_name (map normalize_name [''  Order Date '', ''Ship Date'', ''Profit_Margin''])
     = map normalize_name [''  Order Date '', ''Ship Date'', ''Profit_Margin'']
   \<and> map normalize_name [''  Order Date '', ''Ship Date'', ''Profit_Margin'']
       = [''order_date'', ''ship_date'', ''profit_margin'']"
proof -
  have "map normalize_name [''  Order Date '', ''Ship Date'', ''Profit_Margin'']
       = [''order_date'', ''ship_date'', ''profit_margin'']"
    by code_simp
  with normalize_columns_idempotent [where cs = "[''  Order Date '', ''Ship Date'', ''Profit_Margin'']"]
  show ?thesis by blast
qed

section \<open>A missing input file\<close>

lemma paths_distinct:
  "RAW_DATA_PATH \<noteq> LOG_PATH" "CLEAN_DATA_PATH \<noteq> LOG_PATH" "REPORT_PATH \<noteq> LOG_PATH"
  by (simp_all add: RAW_DATA_PATH_def LOG_PATH_def CLEAN_DATA_PATH_def REPORT_PATH_def)

lemma sublist_critical_line:
  "sublist ''CRITICAL'' (critical_line L w)" "sublist RAW_DATA_PATH (critical_line L w)"
proof -
  have "critical_line L w = (now_hms L (Suc (ticks w)) @ '' | '') @ ''CRITICAL'' @ ('': '' @ RAW_DATA_PATH @ '' not found.'' @ nl)"
    by (simp add: critical_line_def)
  then show "sublist ''CRITICAL'' (critical_line L w)" unfolding sublist_def by blast
  have "critical_line L w = (now_hms L (Suc (ticks w)) @ '' | CRITICAL: '') @ RAW_DATA_PATH @ ('' not found.'' @ nl)"
    by (simp add: critical_line_def)
  then show "sublist RAW_DATA_PATH (critical_line L w)" unfolding sublist_def by blast
qed

text \<open>
  Claim C4. When no file exists at \<open>RAW_DATA_PATH\<close>, the run returns normally; the text log
  holds its header and one line, which contains \<open>CRITICAL\<close> and the path; the message is
  printed; and no other file is written: what is at \<open>CLEAN_DATA_PATH\<close> and at
  \<open>REPORT_PATH\<close> (nothing, if they did not exist) is as before the run.
\<close>

theorem run_pipeline_missing_input:
  assumes "files w RAW_DATA_PATH = None"
  shows "\<exists>w'. run_pipeline L w = Inr w'
     \<and> files w' LOG_PATH = Some (TextFile (log_header L w @ critical_line L w))
     \<and> sublist ''CRITICAL'' (critical_line L w) \<and> sublist RAW_DATA_PATH (critical_line L w)
     \<and> files w' CLEAN_DATA_PATH = files w CLEAN_DATA_PATH
     \<and> files w' REPORT_PATH = files w REPORT_PATH
     \<and> (\<forall>p. p \<noteq> LOG_PATH \<longrightarrow> files w' p = files w p)
     \<and> console w' = console w @ [''CRITICAL: '' @ RAW_DATA_PATH @ '' not found.'']"
proof -
  define msg where "msg = ''CRITICAL: '' @ RAW_DATA_PATH @ '' not found.''"
  define lw where "lw = AnalysisLogger L LOG_PATH REPORT_PATH w"
  define w' where "w' = snd (log_message L msg lw)"
  have nf: "files (snd lw) RAW_DATA_PATH = None"
    using assms paths_distinct by (simp add: lw_def AnalysisLogger_def tick_def write_text_def)
  have run: "run_pipeline L w = Inr w'"
    unfolding run_pipeline_def Let_def w'_def msg_def lw_def [symmetric] using nf by simp
  have f: "files w' = (files w)(LOG_PATH \<mapsto> TextFile (log_header L w @ critical_line L w))"
    by (simp add: w'_def lw_def msg_def AnalysisLogger_def tick_def write_text_def
          append_text_def print_def log_header_def critical_line_def)
  have c: "console w' = console w @ [msg]"
    by (simp add: w'_def lw_def AnalysisLogger_def tick_def write_text_def append_text_def
          print_def)
  have 1: "files w' LOG_PATH = Some (TextFile (log_header L w @ critical_line L w))"
    by (simp add: f)
  have 2: "\<forall>p. p \<noteq> LOG_PATH \<longrightarrow> files w' p = files w p"
    by (simp add: f)
  have 3: "files w' CLEAN_DATA_PATH = files w CLEAN_DATA_PATH"
    using 2 paths_distinct by blast
  have 4: "files w' REPORT_PATH = files w REPORT_PATH"
    using 2 paths_distinct by blast
  from run 1 2 3 4 c [unfolded msg_def] sublist_critical_line [of L w]
  show ?thesis by blast
qed

theorem run_pipeline_missing_input_witness:
  "files ex_world RAW_DATA_PATH = None
   \<and> (\<exists>w'. run_pipeline ex_lib ex_world = Inr w'
     \<and> files w' LOG_PATH = Some (TextFile (log_header ex_lib ex_world @ critical_line ex_lib ex_world))
     \<and> sublist ''CRITICAL'' (critical_line ex_lib ex_world)
     \<and> sublist RAW_DATA_PATH (critical_line ex_lib ex_world)
     \<and> files w' CLEAN_DATA_PATH = files ex_world CLEAN_DATA_PATH
     \<and> files w' REPORT_PATH = files ex_world REPORT_PATH
     \<and> (\<forall>p. p \<noteq> LOG_PATH \<longrightarrow> files w' p = files ex_world p)
     \<and> console w' = console ex_world @ [''CRITICAL: '' @ RAW_DATA_PATH @ '' not found.''])
   \<and> critical_line ex_lib ex_world = ''00:00:01 | CRITICAL: GBP_DataSource_Pr.csv not found.'' @ nl
   \<and> files ex_world CLEAN_DATA_PATH = None
   \<and> files ex_world REPORT_PATH = None"
proof -
  have h: "files ex_world RAW_DATA_PATH = None" by (simp add: ex_world_def)
  have l: "critical_line ex_lib ex_world
             = ''00:00:01 | CRITICAL: GBP_DataSource_Pr.csv not found.'' @ nl"
    by (simp add: critical_line_def ex_lib_def ex_world_def RAW_DATA_PATH_def show_nat.simps)
  have e: "files ex_world CLEAN_DATA_PATH = None" "files ex_world REPORT_PATH = None"
    by (simp_all add: ex_world_def)
  from run_pipeline_missing_input [OF h, of ex_lib] h l e show ?thesis by blast
qed

section \<open>Passes over columns\<close>



















subsection \<open>Date parsing\<close>







subsection \<open>Imputation\<close>

















section \<open>The profit margin\<close>

lemma collect_map_Inr:
  "(\<And>x. x \<in> set xs \<Longrightarrow> f x = Inr (g x)) \<Longrightarrow> collect (map f xs) = Inr (map g xs)"
  by (induction xs) auto

lemma truediv_numbers:
  "is_number a \<Longrightarrow> is_number b \<Longrightarrow>
   truediv a b = Inr (case (a, b) of (Num x, Num y) \<Rightarrow> fl_div x y | _ \<Rightarrow> NaN)"
  by (cases a; cases b) auto

text \<open>
  What holds of the derived column: when the cells of both columns are numbers the margin
  has one cell per row, and at a row of finite profit and sales that are not both zero it
  is the quotient, or zero when the sales are zero.
\<close>

lemma profit_margin_numbers:
  assumes num: "\<forall>r\<in>set (rows df). is_number (get df r ''Profit'') \<and> is_number (get df r ''Sales'')"
  shows "\<exists>ms. profit_margin df = Inr ms \<and> length ms = length (rows df)
     \<and> (\<forall>n<length (rows df). \<forall>p s.
           get df (rows df ! n) ''Profit'' = Num (Fin p)
           \<and> get df (rows df ! n) ''Sales'' = Num (Fin s) \<and> (p \<noteq> 0 \<or> s \<noteq> 0)
           \<longrightarrow> ms ! n = Num (Fin (if s = 0 then 0 else p / s)))"
proof -
  let ?q = "\<lambda>r. case (get df r ''Profit'', get df r ''Sales'') of
                  (Num x, Num y) \<Rightarrow> fl_div x y | _ \<Rightarrow> NaN"
  have "collect (map (\<lambda>r. truediv (get df r ''Profit'') (get df r ''Sales'')) (rows df))
          = Inr (map ?q (rows df))"
    using num by (intro collect_map_Inr truediv_numbers) auto
  then have pm: "profit_margin df = Inr (map (\<lambda>r. Num (replace_inf (?q r))) (rows df))"
    by (simp add: profit_margin_def and_then_def comp_def)
  have "map (\<lambda>r. Num (replace_inf (?q r))) (rows df) ! n = Num (Fin (if s = 0 then 0 else p / s))"
    if "n < length (rows df)" "get df (rows df ! n) ''Profit'' = Num (Fin p)"
       "get df (rows df ! n) ''Sales'' = Num (Fin s)" "p \<noteq> 0 \<or> s \<noteq> 0" for n p s
    using that by auto
  with pm show ?thesis by auto
qed

lemma profit_margin_cell:
  "p \<noteq> 0 \<or> s \<noteq> 0 \<Longrightarrow>
   map_sum id replace_inf (truediv (Num (Fin p)) (Num (Fin s)))
     = Inr (Fin (if s = 0 then 0 else p / s))"
  by auto

lemma profit_margin_zero_zero:
  "map_sum id replace_inf (truediv (Num (Fin 0)) (Num (Fin 0))) = Inr NaN"
  by simp

text \<open>
  Claim C2 at a row without profit and without sales. The margins of the three rows of
  \<open>ex_sales\<close>: 25 over 100 is a quarter; 5 over 0 is an infinity and becomes 0; 0 over 0
  is \<open>NaN\<close>, which the replacement of the infinities does not touch. The later imputation
  pass then writes the median of the other margins there, so that the cleaned file of the
  run holds an eighth at that row, not 0.
\<close>

theorem profit_margin_zero_over_zero:
  "profit_margin ex_sales = Inr [Num (Fin (1 / 4)), Num (Fin 0), Num NaN]
   \<and> isna (Num NaN)
   \<and> map_sum id (\<lambda>w. files w CLEAN_DATA_PATH) (run_pipeline ex_lib ex_sales_world)
       = Inr (Some (CsvFile
           \<lparr>columns = [''profit'', ''sales'', ''profit_margin''],
            rows = [[Num (Fin 25), Num (Fin 100), Num (Fin (1 / 4))],
                    [Num (Fin 5), Num (Fin 0), Num (Fin 0)],
                    [Num (Fin 0), Num (Fin 0), Num (Fin (1 / 8))]]\<rparr>))"
proof (intro conjI)
  show "profit_margin ex_sales = Inr [Num (Fin (1 / 4)), Num (Fin 0), Num NaN]"
    by code_simp
  show "isna (Num NaN)" by simp
  show "map_sum id (\<lambda>w. files w CLEAN_DATA_PATH) (run_pipeline ex_lib ex_sales_world)
       = Inr (Some (CsvFile
           \<lparr>columns = [''profit'', ''sales'', ''profit_margin''],
            rows = [[Num (Fin 25), Num (Fin 100), Num (Fin (1 / 4))],
                    [Num (Fin 5), Num (Fin 0), Num (Fin 0)],
                    [Num (Fin 0), Num (Fin 0), Num (Fin (1 / 8))]]\<rparr>))"
    by code_simp
qed

end
